theory Spec2Isabelle
  imports Complex_Main
begin

section \<open>Values, errors and tensors\<close>

text \<open>
  The transforms of \<^verbatim>\<open>dn3/transforms/instance.py\<close> work on torch tensors of floats.
  A tensor entry is modelled as an exact real number or one of the three exceptional
  values of the float format; rounding, overflow and the sign of zero are not modelled.
  The arithmetic below follows the float rules for the exceptional values: \<open>0/0\<close> is
  \<open>NaN\<close>, a nonzero number divided by zero is an infinity, \<open>NaN\<close> propagates.
\<close>

datatype fval = Fin real | PInf | NInf | NaN

fun fneg :: "fval \<Rightarrow> fval" where
  "fneg (Fin a) = Fin (- a)"
| "fneg PInf = NInf"
| "fneg NInf = PInf"
| "fneg NaN = NaN"

fun fadd :: "fval \<Rightarrow> fval \<Rightarrow> fval" where
  "fadd NaN b = NaN"
| "fadd a NaN = NaN"
| "fadd (Fin a) (Fin b) = Fin (a + b)"
| "fadd (Fin a) b = b"
| "fadd a (Fin b) = a"
| "fadd PInf PInf = PInf"
| "fadd NInf NInf = NInf"
| "fadd PInf NInf = NaN"
| "fadd NInf PInf = NaN"

definition fsub :: "fval \<Rightarrow> fval \<Rightarrow> fval" where
  "fsub a b = fadd a (fneg b)"

fun fmul :: "fval \<Rightarrow> fval \<Rightarrow> fval" where
  "fmul NaN b = NaN"
| "fmul a NaN = NaN"
| "fmul (Fin a) (Fin b) = Fin (a * b)"
| "fmul (Fin a) PInf = (if a = 0 then NaN else if 0 < a then PInf else NInf)"
| "fmul (Fin a) NInf = (if a = 0 then NaN else if 0 < a then NInf else PInf)"
| "fmul PInf (Fin b) = (if b = 0 then NaN else if 0 < b then PInf else NInf)"
| "fmul NInf (Fin b) = (if b = 0 then NaN else if 0 < b then NInf else PInf)"
| "fmul PInf PInf = PInf"
| "fmul NInf NInf = PInf"
| "fmul PInf NInf = NInf"
| "fmul NInf PInf = NInf"

fun fdiv :: "fval \<Rightarrow> fval \<Rightarrow> fval" where
  "fdiv NaN b = NaN"
| "fdiv a NaN = NaN"
| "fdiv (Fin a) (Fin b) =
     (if b \<noteq> 0 then Fin (a / b)
      else if a = 0 then NaN else if 0 < a then PInf else NInf)"
| "fdiv (Fin a) b = Fin 0"
| "fdiv PInf (Fin b) = (if 0 \<le> b then PInf else NInf)"
| "fdiv NInf (Fin b) = (if 0 \<le> b then NInf else PInf)"
| "fdiv a b = NaN"

text \<open>\<^verbatim>\<open>Tensor.min()\<close> and \<^verbatim>\<open>Tensor.max()\<close> return \<open>NaN\<close> when an entry is \<open>NaN\<close>.\<close>

fun fmin :: "fval \<Rightarrow> fval \<Rightarrow> fval" where
  "fmin NaN b = NaN"
| "fmin a NaN = NaN"
| "fmin NInf b = NInf"
| "fmin a NInf = NInf"
| "fmin PInf b = b"
| "fmin a PInf = a"
| "fmin (Fin a) (Fin b) = Fin (min a b)"

fun fmax :: "fval \<Rightarrow> fval \<Rightarrow> fval" where
  "fmax NaN b = NaN"
| "fmax a NaN = NaN"
| "fmax PInf b = PInf"
| "fmax a PInf = PInf"
| "fmax NInf b = b"
| "fmax a NInf = a"
| "fmax (Fin a) (Fin b) = Fin (max a b)"

text \<open>\<^verbatim>\<open>Tensor.bool()\<close>: an entry is true when it is not zero.\<close>

fun fnonzero :: "fval \<Rightarrow> bool" where
  "fnonzero (Fin a) = (a \<noteq> 0)"
| "fnonzero v = True"

fun is_nan :: "fval \<Rightarrow> bool" where
  "is_nan NaN = True"
| "is_nan v = False"

fun is_fin :: "fval \<Rightarrow> bool" where
  "is_fin (Fin a) = True"
| "is_fin v = False"

text \<open>
  The exceptions the code and the library calls can raise. \<open>RuntimeError\<close> stands for
  the shape and size errors raised inside torch and numpy. \<open>Unmodelled\<close> is not an
  exception: it marks an input on which the model does not describe the call.
\<close>

datatype error = TypeError | ValueError | AssertionError | IndexError | AttributeError
  | RuntimeError | Unmodelled

text \<open>
  A tensor is its shape and its entries in row-major order, as a contiguous torch
  tensor stores them. It is well formed when the number of entries is the product of
  the shape.
\<close>

datatype tensor = Tensor (shape: "nat list") (data: "fval list")

definition wf_tensor :: "tensor \<Rightarrow> bool" where
  "wf_tensor x = (length (data x) = prod_list (shape x))"

text \<open>\<^verbatim>\<open>x.min()\<close>, \<^verbatim>\<open>x.max()\<close>: the reduction of an empty tensor raises.\<close>

fun reduce_min :: "fval list \<Rightarrow> error + fval" where
  "reduce_min [] = Inl RuntimeError"
| "reduce_min (v # vs) = Inr (fold fmin vs v)"

fun reduce_max :: "fval list \<Rightarrow> error + fval" where
  "reduce_max [] = Inl RuntimeError"
| "reduce_max (v # vs) = Inr (fold fmax vs v)"

text \<open>
  The slices \<^verbatim>\<open>x[i]\<close> along the first dimension: slice \<open>i\<close> is the block of
  \<open>prod_list (tl (shape x))\<close> entries at offset \<open>i\<close> times that size.
\<close>

definition slice_size :: "tensor \<Rightarrow> nat" where
  "slice_size x = prod_list (tl (shape x))"

definition slice0 :: "tensor \<Rightarrow> nat \<Rightarrow> fval list" where
  "slice0 x i = take (slice_size x) (drop (i * slice_size x) (data x))"

text \<open>The rows of the last dimension: row \<open>i\<close> is the block of \<open>last (shape x)\<close>
  entries at offset \<open>i\<close> times that length.\<close>

definition lastdim_rows :: "tensor \<Rightarrow> fval list list" where
  "lastdim_rows x =
     (let l = last (shape x)
      in map (\<lambda>i. take l (drop (i * l) (data x))) [0..<prod_list (butlast (shape x))])"

text \<open>The sum of a list of entries, as the matrix product and \<^verbatim>\<open>sum(dim=0)\<close> take it.\<close>

definition fsum :: "fval list \<Rightarrow> fval" where
  "fsum vs = foldl fadd (Fin 0) vs"

text \<open>Sequencing of calls that may raise: the first error is the result.\<close>

fun collect :: "(error + 'a) list \<Rightarrow> error + 'a list" where
  "collect [] = Inr []"
| "collect (Inl e # rs) = Inl e"
| "collect (Inr a # rs) = (case collect rs of Inl e \<Rightarrow> Inl e | Inr as \<Rightarrow> Inr (a # as))"

section \<open>\<^verbatim>\<open>dn3/utils.py\<close>: min-max normalisation\<close>

text \<open>
  \<^verbatim>\<open>(x - x.min()) / (x.max() - x.min())\<close> over a list of entries.
\<close>

definition normalize_entries :: "fval list \<Rightarrow> error + fval list" where
  "normalize_entries vs =
     (case reduce_min vs of Inl e \<Rightarrow> Inl e | Inr mn \<Rightarrow>
      case reduce_max vs of Inl e \<Rightarrow> Inl e | Inr mx \<Rightarrow>
        Inr (map (\<lambda>a. fdiv (fsub a mn) (fsub mx mn)) vs))"

text \<open>
  \<^verbatim>\<open>min_max_normalize(x)\<close> takes the tensor alone. A tensor of two dimensions is
  normalised with its global minimum and maximum. For a tensor of three dimensions both
  nested reductions are taken over the last dimension with \<^verbatim>\<open>keepdim=True\<close>; the
  second one reduces a dimension of size one, so every row of the last dimension is
  normalised with its own minimum and maximum, and the reduction raises
  \<^verbatim>\<open>IndexError\<close> when that dimension is empty. For every other number of dimensions the function falls off its
  end and returns \<^verbatim>\<open>None\<close>, here \<open>Inr None\<close>.
\<close>

definition min_max_normalize :: "tensor \<Rightarrow> error + tensor option" where
  "min_max_normalize x =
     (if length (shape x) = 2 then
        (case normalize_entries (data x) of Inl e \<Rightarrow> Inl e
         | Inr vs \<Rightarrow> Inr (Some (Tensor (shape x) vs)))
      else if length (shape x) = 3 then
        (if shape x ! 2 = 0 then Inl IndexError
         else case collect (map normalize_entries (lastdim_rows x)) of
           Inl e \<Rightarrow> Inl e
         | Inr vss \<Rightarrow> Inr (Some (Tensor (shape x) (concat vss))))
      else Inr None)"

text \<open>
  A Python call passes its positional arguments as a list; \<^verbatim>\<open>min_max_normalize\<close>
  has one parameter, so a call with any other number of arguments raises
  \<^verbatim>\<open>TypeError\<close> before the body runs.
\<close>

datatype pyarg = ArgTensor tensor | ArgNum real

fun call_min_max_normalize :: "pyarg list \<Rightarrow> error + tensor option" where
  "call_min_max_normalize [ArgTensor x] = min_max_normalize x"
| "call_min_max_normalize [ArgNum r] = Inl AttributeError"
| "call_min_max_normalize args = Inl TypeError"

section \<open>\<^verbatim>\<open>dn3/transforms/instance.py\<close>: the transforms\<close>

subsection \<open>ZScore\<close>

text \<open>
  \<^verbatim>\<open>(x - x.mean()) / x.std()\<close>. The two reductions are library calls whose results
  depend on the order and the rounding of the float summation, which the model does not
  fix: the values they return are the arguments \<open>m\<close> and \<open>sd\<close>. The subtraction and
  the division are taken entry by entry, with no guard on \<open>sd\<close>.
\<close>

definition ZScore_call :: "fval \<Rightarrow> fval \<Rightarrow> tensor \<Rightarrow> tensor" where
  "ZScore_call m sd x = Tensor (shape x) (map (\<lambda>a. fdiv (fsub a m) sd) (data x))"

subsection \<open>FixedScale\<close>

record FixedScale =
  low_bound :: real
  high_bound :: real

text \<open>\<^verbatim>\<open>return min_max_normalize(x, self.low_bound, self.high_bound)\<close>\<close>

definition FixedScale_call :: "FixedScale \<Rightarrow> tensor \<Rightarrow> error + tensor option" where
  "FixedScale_call self x =
     call_min_max_normalize [ArgTensor x, ArgNum (low_bound self), ArgNum (high_bound self)]"

subsection \<open>TemporalPadding\<close>

text \<open>
  \<^verbatim>\<open>torch.nn.functional.pad(x, pad, mode='constant', value=v)\<close>: \<open>pad\<close> lists the
  amounts to add before and after each dimension, the last dimension first. Its length
  must be even and at most twice the number of dimensions of \<open>x\<close>. The model covers
  the default mode \<^verbatim>\<open>'constant'\<close>.
\<close>

fun pairs :: "nat list \<Rightarrow> (nat \<times> nat) list" where
  "pairs (a # b # ps) = (a, b) # pairs ps"
| "pairs ps = []"

fun pad_nd :: "nat list \<Rightarrow> (nat \<times> nat) list \<Rightarrow> fval \<Rightarrow> fval list \<Rightarrow> fval list" where
  "pad_nd [] ps v xs = xs"
| "pad_nd (d # ds) [] v xs = xs"
| "pad_nd (d # ds) ((a, b) # ps) v xs =
     (let n = prod_list ds;
          n' = prod_list (map2 (\<lambda>d (a, b). a + d + b) ds ps)
      in replicate (a * n') v
         @ concat (map (\<lambda>i. pad_nd ds ps v (take n (drop (i * n) xs))) [0..<d])
         @ replicate (b * n') v)"

definition pad_constant :: "tensor \<Rightarrow> nat list \<Rightarrow> fval \<Rightarrow> error + tensor" where
  "pad_constant x pad v =
     (if odd (length pad) then Inl RuntimeError
      else if length (shape x) < length pad div 2 then Inl RuntimeError
      else
        (let ps = replicate (length (shape x) - length pad div 2) (0, 0) @ rev (pairs pad)
         in Inr (Tensor (map2 (\<lambda>d (a, b). a + d + b) (shape x) ps)
                        (pad_nd (shape x) ps v (data x)))))"

record TemporalPadding =
  start_padding :: nat
  end_padding :: nat
  constant_value :: fval

text \<open>
  \<^verbatim>\<open>pad = [self.start_padding, self.end_padding] + [0 for _ in range(2, x.shape[-1])]\<close>:
  the list is extended by one zero for every sample of \<open>x\<close> beyond the second.
\<close>

definition TemporalPadding_call :: "TemporalPadding \<Rightarrow> tensor \<Rightarrow> error + tensor" where
  "TemporalPadding_call self x =
     (if shape x = [] then Inl IndexError
      else
        (let pad = [start_padding self, end_padding self]
                   @ map (\<lambda>_. 0) [2..<last (shape x)]
         in pad_constant x pad (constant_value self)))"

definition TemporalPadding_new_sequence_length :: "TemporalPadding \<Rightarrow> nat \<Rightarrow> nat" where
  "TemporalPadding_new_sequence_length self old_sequence_length =
     old_sequence_length + start_padding self + end_padding self"

subsection \<open>TemporalInterpolation\<close>

text \<open>
  \<^verbatim>\<open>interpolate(x, n, mode)\<close> on a tensor of three dimensions resamples every row
  of the last dimension to \<open>n\<close> entries; it raises when the rows are empty, when
  there are no channels or when \<open>n\<close> is zero. The mode names the kernel that
  resamples one row and is modelled by that kernel; \<open>nearest\<close> is the default
  \<^verbatim>\<open>'nearest'\<close>, which reads entry \<open>\<lfloor>i * L / n\<rfloor>\<close> of a row of length \<open>L\<close>.
  The index is computed here in exact arithmetic; torch multiplies \<open>i\<close> by the
  single-precision quotient \<open>L / n\<close>, which for some pairs of lengths reads a
  neighbouring entry. The shape of the result does not depend on the kernel.
\<close>

type_synonym kernel = "nat \<Rightarrow> fval list \<Rightarrow> fval list"

definition nearest :: kernel where
  "nearest n r = map (\<lambda>i. r ! ((i * length r) div n)) [0..<n]"

definition interpolate :: "tensor \<Rightarrow> nat \<Rightarrow> kernel \<Rightarrow> error + tensor" where
  "interpolate x n m =
     (if shape x ! 1 = 0 \<or> shape x ! 2 = 0 \<or> n = 0 then Inl RuntimeError
      else Inr (Tensor [shape x ! 0, shape x ! 1, n]
                       (concat (map (m n) (lastdim_rows x)))))"

definition unsqueeze0 :: "tensor \<Rightarrow> tensor" where
  "unsqueeze0 x = Tensor (1 # shape x) (data x)"

definition squeeze0 :: "tensor \<Rightarrow> tensor" where
  "squeeze0 x = (case shape x of d # ds \<Rightarrow> if d = 1 then Tensor ds (data x) else x | [] \<Rightarrow> x)"

record TemporalInterpolation =
  self_new_sequence_length :: nat
  mode :: kernel
  self_new_sfreq :: "real option"

definition TemporalInterpolation_call ::
    "'a TemporalInterpolation_scheme \<Rightarrow> tensor \<Rightarrow> error + tensor" where
  "TemporalInterpolation_call self x =
     (if length (shape x) = 2 then
        (case interpolate (unsqueeze0 x) (self_new_sequence_length self) (mode self) of
           Inl e \<Rightarrow> Inl e
         | Inr y \<Rightarrow> Inr (squeeze0 y))
      else if length (shape x) = 3 then
        interpolate x (self_new_sequence_length self) (mode self)
      else Inl ValueError)"

definition TemporalInterpolation_new_sequence_length ::
    "'a TemporalInterpolation_scheme \<Rightarrow> nat \<Rightarrow> nat" where
  "TemporalInterpolation_new_sequence_length self old_sequence_length =
     self_new_sequence_length self"

definition TemporalInterpolation_new_sfreq ::
    "'a TemporalInterpolation_scheme \<Rightarrow> real \<Rightarrow> real" where
  "TemporalInterpolation_new_sfreq self old_sfreq =
     (case self_new_sfreq self of Some f \<Rightarrow> f | None \<Rightarrow> old_sfreq)"

text \<open>
  The slice \<^verbatim>\<open>x[:, :k]\<close> keeps the first \<open>k\<close> indices of the second dimension; a
  negative \<open>k\<close> counts from the end, and the bound is clipped to the dimension.
\<close>

definition slice1 :: "tensor \<Rightarrow> int \<Rightarrow> error + tensor" where
  "slice1 x k =
     (if length (shape x) < 2 then Inl IndexError
      else
        (let d1 = shape x ! 1;
             k' = (if k < 0 then nat (int d1 + k) else min (nat k) d1);
             r = prod_list (drop 2 (shape x))
         in Inr (Tensor (hd (shape x) # k' # drop 2 (shape x))
                        (concat (map (\<lambda>i. take (k' * r) (slice0 x i)) [0..<hd (shape x)])))))"

subsection \<open>CropAndUpSample\<close>

text \<open>
  \<^verbatim>\<open>np.random.randint(low, high)\<close> returns an integer of the half-open interval from
  \<open>low\<close> up to but excluding \<open>high\<close>, and raises when the interval is empty. The
  random source is the argument \<open>u\<close>: every \<open>u\<close> selects one integer of the interval.
\<close>

definition randint :: "int \<Rightarrow> int \<Rightarrow> nat \<Rightarrow> error + int" where
  "randint low high u =
     (if high \<le> low then Inl ValueError else Inr (low + int (u mod nat (high - low))))"

record CropAndUpSample = TemporalInterpolation +
  crop_sequence_min :: int

definition CropAndUpSample_init :: "nat \<Rightarrow> int \<Rightarrow> CropAndUpSample" where
  "CropAndUpSample_init original_sequence_length crop_min =
     \<lparr>self_new_sequence_length = original_sequence_length, mode = nearest,
      self_new_sfreq = None, crop_sequence_min = crop_min\<rparr>"

definition crop_len :: "CropAndUpSample \<Rightarrow> nat \<Rightarrow> tensor \<Rightarrow> error + int" where
  "crop_len self u x =
     (if shape x = [] then Inl IndexError
      else randint (crop_sequence_min self) (int (last (shape x))) u)"

definition CropAndUpSample_call :: "CropAndUpSample \<Rightarrow> nat \<Rightarrow> tensor \<Rightarrow> error + tensor" where
  "CropAndUpSample_call self u x =
     (case crop_len self u x of Inl e \<Rightarrow> Inl e | Inr k \<Rightarrow>
      case slice1 x k of Inl e \<Rightarrow> Inl e | Inr xc \<Rightarrow>
        TemporalInterpolation_call self xc)"

definition CropAndUpSample_new_sequence_length :: "CropAndUpSample \<Rightarrow> nat \<Rightarrow> nat" where
  "CropAndUpSample_new_sequence_length self old_sequence_length = old_sequence_length"

subsection \<open>CropAndResample\<close>

record CropAndResample = TemporalInterpolation +
  stdev :: real
  self_truncate :: "real option"

text \<open>
  \<^verbatim>\<open>trunc_norm(mean, std, max_diff)\<close> draws \<^verbatim>\<open>int(np.random.normal(mean, std))\<close>
  until a draw is within \<open>max_diff\<close> of \<open>mean\<close>. The random source is the sequence
  \<open>draws\<close> of those integers, read from position \<open>i\<close>; \<^verbatim>\<open>np.random.normal\<close> raises
  for a negative \<open>std\<close>. The loop has no other exit, so the function is partial: the
  result \<open>None\<close> says that the call does not return.
\<close>

partial_function (option) trunc_norm ::
    "(nat \<Rightarrow> int) \<Rightarrow> nat \<Rightarrow> int \<Rightarrow> real \<Rightarrow> real \<Rightarrow> (error + int) option" where
  [code]: "trunc_norm draws i mean_len sd max_diff =
     (if sd < 0 then Some (Inl ValueError)
      else if max_diff < \<bar>real_of_int (draws i - mean_len)\<bar>
        then trunc_norm draws (Suc i) mean_len sd max_diff
      else Some (Inr (draws i)))"

text \<open>\<^verbatim>\<open>min(x.shape[-1] - self._new_sequence_length, self.truncate)\<close>; no truncation is
  \<^verbatim>\<open>float("inf")\<close>.\<close>

definition max_diff_of :: "CropAndResample \<Rightarrow> tensor \<Rightarrow> real" where
  "max_diff_of self x =
     (let d = real_of_int (int (last (shape x)) - int (self_new_sequence_length self))
      in case self_truncate self of None \<Rightarrow> d | Some t \<Rightarrow> min d t)"

definition CropAndResample_call ::
    "CropAndResample \<Rightarrow> (nat \<Rightarrow> int) \<Rightarrow> tensor \<Rightarrow> (error + tensor) option" where
  "CropAndResample_call self draws x =
     (if shape x = [] then Some (Inl IndexError)
      else if \<not> 0 < max_diff_of self x then Some (Inl AssertionError)
      else
        (case trunc_norm draws 0 (int (self_new_sequence_length self)) (stdev self)
                (max_diff_of self x) of
           None \<Rightarrow> None
         | Some (Inl e) \<Rightarrow> Some (Inl e)
         | Some (Inr offset) \<Rightarrow>
             (case slice1 x offset of Inl e \<Rightarrow> Some (Inl e)
              | Inr xc \<Rightarrow> Some (TemporalInterpolation_call self xc))))"

definition CropAndResample_new_sequence_length :: "CropAndResample \<Rightarrow> nat \<Rightarrow> nat" where
  "CropAndResample_new_sequence_length self old_sequence_length = old_sequence_length"

subsection \<open>Indexing the first dimension\<close>

text \<open>
  \<open>map_slices f x\<close> rebuilds \<open>x\<close> from its slices along the first dimension, slice
  \<open>i\<close> replaced by \<open>f i\<close> of it; the in-place assignments to rows are instances.
\<close>

definition map_slices :: "(nat \<Rightarrow> fval list \<Rightarrow> fval list) \<Rightarrow> tensor \<Rightarrow> tensor" where
  "map_slices f x =
     Tensor (shape x) (concat (map (\<lambda>i. f i (slice0 x i)) [0..<hd (shape x)]))"

text \<open>\<^verbatim>\<open>x[inds, :]\<close> for a list of row numbers.\<close>

definition index_select0 :: "tensor \<Rightarrow> nat list \<Rightarrow> error + tensor" where
  "index_select0 x inds =
     (if length (shape x) < 2 then Inl IndexError
      else if list_ex (\<lambda>i. hd (shape x) \<le> i) inds then Inl IndexError
      else Inr (Tensor (length inds # tl (shape x)) (concat (map (slice0 x) inds))))"

text \<open>
  \<^verbatim>\<open>x[inds, :] = y\<close> for a \<open>y\<close> of the shape of \<^verbatim>\<open>x[inds, :]\<close>: row \<open>inds ! j\<close>
  becomes slice \<open>j\<close> of \<open>y\<close>, the last assignment to a row standing.
\<close>

definition index_put0 :: "tensor \<Rightarrow> nat list \<Rightarrow> tensor \<Rightarrow> error + tensor" where
  "index_put0 x inds y =
     (if length (shape x) < 2 then Inl IndexError
      else if list_ex (\<lambda>i. hd (shape x) \<le> i) inds then Inl IndexError
      else if shape y \<noteq> length inds # tl (shape x) then Inl RuntimeError
      else Inr (map_slices
                  (\<lambda>i old. case map_of (rev (zip inds [0..<length inds])) i of
                               None \<Rightarrow> old
                             | Some j \<Rightarrow> slice0 y j) x))"

text \<open>\<^verbatim>\<open>x[rows, :] = v\<close> for a scalar \<open>v\<close>, the rows given by a predicate.\<close>

definition fill_slices :: "tensor \<Rightarrow> (nat \<Rightarrow> bool) \<Rightarrow> fval \<Rightarrow> tensor" where
  "fill_slices x sel v =
     map_slices (\<lambda>i old. if sel i then replicate (slice_size x) v else old) x"

subsection \<open>MappingDeep1010\<close>

text \<open>
  The module \<^verbatim>\<open>dn3/transforms/channels.py\<close> is not among the sources. Its index
  constants are parameters of the model, and the mapping that
  \<^verbatim>\<open>map_dataset_channels_deep_1010\<close> returns is a matrix given with the transform:
  one row per source channel, one column per canonical slot.
\<close>

record deep1010 =
  EEG_INDS :: "nat list"
  EOG_INDS :: "nat list"
  REF_INDS :: "nat list"
  EXTRA_INDS :: "nat list"
  SCALE_IND :: nat

record matrix =
  nrows :: nat
  ncols :: nat
  entry :: "nat \<Rightarrow> nat \<Rightarrow> fval"

record MappingDeep1010 =
  mapping :: matrix
  max_scale :: "fval option"
  return_mask :: bool

text \<open>
  \<^verbatim>\<open>2 * (torch.clamp_max((x.max() - x.min()) / self.max_scale, 1.0) - 0.5)\<close>, or
  \<open>0\<close> without a \<^verbatim>\<open>max_scale\<close>.
\<close>

definition scale_of :: "MappingDeep1010 \<Rightarrow> tensor \<Rightarrow> error + fval" where
  "scale_of self x =
     (case max_scale self of
        None \<Rightarrow> Inr (Fin 0)
      | Some ms \<Rightarrow>
          (case reduce_max (data x) of Inl e \<Rightarrow> Inl e | Inr mx \<Rightarrow>
          (case reduce_min (data x) of Inl e \<Rightarrow> Inl e | Inr mn \<Rightarrow>
             Inr (fmul (Fin 2) (fsub (fmin (fdiv (fsub mx mn) ms) (Fin 1)) (Fin (1 / 2)))))))"

text \<open>
  \<^verbatim>\<open>(x.transpose(1, 0) @ self.mapping).transpose(1, 0)\<close>. For \<open>x\<close> of shape
  \<open>[C, s]\<close> the result has shape \<open>[ncols, s]\<close> and entry \<open>(k, t)\<close> is the sum over the
  source channels \<open>c\<close> of \<open>x[c, t] * mapping[c, k]\<close>. With more dimensions the product
  is batched over the leading ones and contracts the last dimension of \<open>x\<close>.
\<close>

definition apply_mapping :: "tensor \<Rightarrow> matrix \<Rightarrow> error + tensor" where
  "apply_mapping x M =
     (if length (shape x) < 2 then Inl IndexError
      else if length (shape x) = 2 then
        (let C = shape x ! 0; s = shape x ! 1
         in if C \<noteq> nrows M then Inl RuntimeError
            else Inr (Tensor [ncols M, s]
                   (concat (map (\<lambda>k. map (\<lambda>t. fsum (map (\<lambda>c. fmul (data x ! (c * s + t))
                                                              (entry M c k)) [0..<C]))
                                        [0..<s])
                             [0..<ncols M]))))
      else
        (let l = last (shape x)
         in if l \<noteq> nrows M then Inl RuntimeError
            else Inr (Tensor (butlast (shape x) @ [ncols M])
                   (concat (map (\<lambda>r. map (\<lambda>k. fsum (map (\<lambda>j. fmul (r ! j) (entry M j k))
                                                       [0..<l]))
                                        [0..<ncols M])
                             (lastdim_rows x))))))"

text \<open>\<^verbatim>\<open>x[ch_type_inds, :] = min_max_normalize(x[ch_type_inds, :])\<close>; assigning
  \<^verbatim>\<open>None\<close> to rows of a tensor raises \<^verbatim>\<open>TypeError\<close>.\<close>

definition normalize_category :: "tensor \<Rightarrow> nat list \<Rightarrow> error + tensor" where
  "normalize_category x inds =
     (case index_select0 x inds of Inl e \<Rightarrow> Inl e | Inr sl \<Rightarrow>
     (case min_max_normalize sl of
        Inl e \<Rightarrow> Inl e
      | Inr None \<Rightarrow> Inl TypeError
      | Inr (Some y) \<Rightarrow> index_put0 x inds y))"

fun normalize_categories :: "tensor \<Rightarrow> nat list list \<Rightarrow> error + tensor" where
  "normalize_categories x [] = Inr x"
| "normalize_categories x (inds # rest) =
     (case normalize_category x inds of Inl e \<Rightarrow> Inl e
      | Inr x' \<Rightarrow> normalize_categories x' rest)"

text \<open>\<^verbatim>\<open>self.mapping.sum(dim=0).bool()\<close>: a slot is in use when its column does not
  sum to zero.\<close>

definition used_channel_mask :: "matrix \<Rightarrow> bool list" where
  "used_channel_mask M =
     map (\<lambda>k. fnonzero (fsum (map (\<lambda>c. entry M c k) [0..<nrows M]))) [0..<ncols M]"

definition MappingDeep1010_call ::
    "deep1010 \<Rightarrow> MappingDeep1010 \<Rightarrow> tensor \<Rightarrow> error + tensor \<times> bool list option" where
  "MappingDeep1010_call K self x =
     (case scale_of self x of Inl e \<Rightarrow> Inl e | Inr scale \<Rightarrow>
     (case apply_mapping x (mapping self) of Inl e \<Rightarrow> Inl e | Inr x1 \<Rightarrow>
     (case normalize_categories x1 [EEG_INDS K, EOG_INDS K, REF_INDS K, EXTRA_INDS K] of
        Inl e \<Rightarrow> Inl e
      | Inr x2 \<Rightarrow>
          (let mask = used_channel_mask (mapping self)
           in if length mask \<noteq> hd (shape x2) then Inl IndexError
              else
                (let x3 = fill_slices x2 (\<lambda>i. \<not> mask ! i) (Fin 0)
                 in if hd (shape x3) \<le> SCALE_IND K then Inl IndexError
                    else
                      (let x4 = fill_slices x3 (\<lambda>i. i = SCALE_IND K) scale
                       in Inr (x4, if return_mask self then Some mask else None)))))))"

subsection \<open>NoisyBlankDeep1010\<close>

text \<open>
  The transform receives the tuple of per-instance values: the trial tensor first, then
  labels, identifiers and a boolean mask over the rows of the tensor. It returns a list
  of values, or, after \<^verbatim>\<open>x = x.pop(self.mask_index)\<close>, a single one. The uniform
  draws of \<^verbatim>\<open>torch.rand_like\<close> are the sequence \<open>rnd\<close>.
\<close>

datatype pyval = PTensor tensor | PMask "bool list" | POther nat

datatype pyret = RList "pyval list" | RItem pyval

record NoisyBlankDeep1010 =
  mask_index :: int
  purge_mask :: bool

text \<open>Python's list index: a negative index counts from the end.\<close>

definition py_index :: "'a list \<Rightarrow> int \<Rightarrow> error + nat" where
  "py_index xs i =
     (let n = int (length xs); j = (if i < 0 then n + i else i)
      in if 0 \<le> j \<and> j < n then Inr (nat j) else Inl IndexError)"

text \<open>\<^verbatim>\<open>x[0][~mask, :] = 2 * torch.rand_like(blanks) - 1\<close>: the rows that the mask
  leaves out are overwritten, in order, with the draws.\<close>

definition noise_blanks :: "(nat \<Rightarrow> real) \<Rightarrow> bool list \<Rightarrow> tensor \<Rightarrow> tensor" where
  "noise_blanks rnd m t =
     map_slices
       (\<lambda>i old. if m ! i then old
                 else map (\<lambda>q. Fin (2 * rnd (length (filter Not (take i m)) * slice_size t + q) - 1))
                          [0..<slice_size t]) t"

definition NoisyBlankDeep1010_call ::
    "NoisyBlankDeep1010 \<Rightarrow> (nat \<Rightarrow> real) \<Rightarrow> pyval list \<Rightarrow> error + pyret" where
  "NoisyBlankDeep1010_call self rnd xs =
     (if \<not> 1 < length xs then Inl AssertionError
      else
        (case py_index xs (mask_index self) of Inl e \<Rightarrow> Inl e | Inr j \<Rightarrow>
        (case (xs ! 0, xs ! j) of
           (PTensor t, PMask m) \<Rightarrow>
             if length (shape t) < 2 \<or> length m \<noteq> hd (shape t) then Inl IndexError
             else
               (let xs' = xs[0 := PTensor (noise_blanks rnd m t)]
                in if purge_mask self then Inr (RItem (xs' ! j)) else Inr (RList xs'))
         | (PTensor t, PTensor m) \<Rightarrow> Inl TypeError
         | (a, b) \<Rightarrow> Inl Unmodelled)))"

subsection \<open>AdditiveEogDeep1010\<close>

record AdditiveEogDeep1010 =
  self_p :: real
  max_intensity :: real
  blanking_p :: real

text \<open>
  One pass of the loop over \<^verbatim>\<open>EOG_INDS\<close>, on a tensor of shape \<open>[channels, samples]\<close>.
  The state is the tensor and the number of uniform draws used so far;
  \<^verbatim>\<open>torch.rand(1)\<close> is drawn only when \<^verbatim>\<open>blanking_p\<close> is neither 0 nor 1.
  Inputs with another number of dimensions are outside the model.
\<close>

definition eog_step ::
    "AdditiveEogDeep1010 \<Rightarrow> (nat \<Rightarrow> real) \<Rightarrow> nat list \<Rightarrow> nat \<Rightarrow> tensor \<times> nat
       \<Rightarrow> error + tensor \<times> nat" where
  "eog_step self rnd affected_inds which_eog st =
     (let x = fst st; pos = snd st;
          k = length affected_inds;
          this_affected_ids =
            map fst (filter (\<lambda>(i, j). rnd (pos + j) < 1 / 4) (zip affected_inds [0..<k]));
          pos1 = pos + k;
          n = length this_affected_ids
      in if hd (shape x) \<le> which_eog then Inl IndexError
         else if list_ex (\<lambda>i. hd (shape x) \<le> i) this_affected_ids then Inl IndexError
         else
           (let eog = slice0 x which_eog;
                x1 = map_slices
                       (\<lambda>i old. case map_of (rev (zip this_affected_ids [0..<n])) i of
                                    None \<Rightarrow> old
                                  | Some q \<Rightarrow>
                                      map (fmul (Fin (max_intensity self * rnd (pos1 + q)))) eog) x;
                pos2 = pos1 + n
            in if blanking_p self \<noteq> 0 \<and> (blanking_p self = 1 \<or> rnd pos2 < blanking_p self)
               then Inr (fill_slices x1 (\<lambda>i. i = which_eog) (Fin 0),
                         if blanking_p self = 1 then pos2 else pos2 + 1)
               else Inr (x1, if blanking_p self = 0 then pos2 else pos2 + 1)))"

fun eog_loop ::
    "AdditiveEogDeep1010 \<Rightarrow> (nat \<Rightarrow> real) \<Rightarrow> nat list \<Rightarrow> nat list \<Rightarrow> tensor \<times> nat
       \<Rightarrow> error + tensor \<times> nat" where
  "eog_loop self rnd affected_inds [] st = Inr st"
| "eog_loop self rnd affected_inds (which_eog # rest) st =
     (case eog_step self rnd affected_inds which_eog st of Inl e \<Rightarrow> Inl e
      | Inr st' \<Rightarrow> eog_loop self rnd affected_inds rest st')"

text \<open>
  \<^verbatim>\<open>affected_inds = (torch.rand(EOG_INDS[0] - 1).lt(self.p)).nonzero()\<close>: the rows
  below \<open>EOG_INDS[0] - 1\<close> whose draw is less than \<open>p\<close>.
\<close>

definition AdditiveEogDeep1010_call ::
    "deep1010 \<Rightarrow> AdditiveEogDeep1010 \<Rightarrow> (nat \<Rightarrow> real) \<Rightarrow> tensor \<Rightarrow> error + tensor" where
  "AdditiveEogDeep1010_call K self rnd x =
     (case EOG_INDS K of
        [] \<Rightarrow> Inl IndexError
      | e0 # es \<Rightarrow>
          if e0 = 0 then Inl RuntimeError
          else if length (shape x) \<noteq> 2 then Inl Unmodelled
          else
            (let n0 = e0 - 1;
                 affected_inds = filter (\<lambda>i. rnd i < self_p self) [0..<n0]
             in case eog_loop self rnd affected_inds (EOG_INDS K) (x, n0) of
                  Inl e \<Rightarrow> Inl e
                | Inr st \<Rightarrow> Inr (fst st)))"

subsection \<open>A small scheme\<close>

text \<open>
  A scheme of six canonical slots for the examples: two EEG slots, one EOG slot, one
  reference slot, the scale slot and one extra slot, and the mapping of a dataset of two
  channels, an EEG channel onto slot 0 and an EOG channel onto slot 2.
\<close>

definition demo_scheme :: deep1010 where
  "demo_scheme = \<lparr>EEG_INDS = [0, 1], EOG_INDS = [2], REF_INDS = [3], EXTRA_INDS = [5], SCALE_IND = 4\<rparr>"

definition demo_mapping :: matrix where
  "demo_mapping = \<lparr>nrows = 2, ncols = 6,
     entry = (\<lambda>c k. if (c = 0 \<and> k = 0) \<or> (c = 1 \<and> k = 2) then Fin 1 else Fin 0)\<rparr>"


section \<open>Shape propagation against the data\<close>

text \<open>
  Claim C1. The sample count of the tensor returned by a transform is the one its
  \<^verbatim>\<open>new_sequence_length\<close> predicts; for CropAndResample with target length \<open>t\<close>
  the call returns \<open>t\<close> samples and \<^verbatim>\<open>new_sequence_length\<close> yields \<open>t\<close> as well.
  The code does not do this: CropAndResample overrides \<^verbatim>\<open>new_sequence_length\<close> with the
  identity, while its call resamples to the target. With target 4 on a tensor of shape
  \<open>[1, 6]\<close> and an accepted draw of 5, the call returns 4 samples and
  \<^verbatim>\<open>new_sequence_length(6)\<close> is 6.
\<close>

theorem CropAndResample_call_disagrees_with_new_sequence_length:
  "CropAndResample_call
     \<lparr>self_new_sequence_length = 4, mode = nearest, self_new_sfreq = None, stdev = 1,
      self_truncate = None\<rparr>
     (\<lambda>i. 5) (Tensor [1, 6] [Fin 1, Fin 2, Fin 3, Fin 4, Fin 5, Fin 6])
   = Some (Inr (Tensor [1, 4] [Fin 1, Fin 2, Fin 3, Fin 4]))
   \<and> CropAndResample_new_sequence_length
     \<lparr>self_new_sequence_length = 4, mode = nearest, self_new_sfreq = None, stdev = 1,
      self_truncate = None\<rparr> 6 = 6"
  by (simp add: CropAndResample_call_def max_diff_of_def trunc_norm.simps slice1_def
      TemporalInterpolation_call_def interpolate_def unsqueeze0_def squeeze0_def
      lastdim_rows_def nearest_def slice0_def slice_size_def upt_conv_Cons
      CropAndResample_new_sequence_length_def)

section \<open>FixedScale\<close>

text \<open>
  Claim C3. FixedScale with bounds \<open>(low, high)\<close> returns the input rescaled into
  \<open>[low, high]\<close>. The code does not do this: the call passes three arguments to
  \<^verbatim>\<open>min_max_normalize\<close>, which takes one, so every call of FixedScale raises
  \<^verbatim>\<open>TypeError\<close> and returns no tensor.
\<close>

theorem FixedScale_call_raises_TypeError:
  "FixedScale_call self x = Inl TypeError"
  by (simp add: FixedScale_call_def)

section \<open>TemporalPadding\<close>

text \<open>
  Claim C4. TemporalPadding with \<open>start_padding = 3\<close> and \<open>end_padding = 2\<close> turns a
  tensor of shape \<open>[C, 10]\<close> into one of shape \<open>[C, 15]\<close>. The code does not do this:
  the padding list gets one entry per sample beyond the second, ten entries here, which
  is more than twice the two dimensions of the tensor, and the padding call raises.
\<close>

theorem TemporalPadding_call_ten_samples_raises:
  "TemporalPadding_call \<lparr>start_padding = 3, end_padding = 2, constant_value = v\<rparr>
     (Tensor [C, 10] xs) = Inl RuntimeError"
  by (simp add: TemporalPadding_call_def pad_constant_def)

section \<open>AdditiveEogDeep1010\<close>

text \<open>
  Claim C7. The rows selected for an EOG slot get the scaled EOG signal added to their
  old entries. The code does not do this: the assignment overwrites the selected rows
  with the scaled EOG signal. With the EOG slot in row 2 holding \<open>[2, 4]\<close>, row 0
  holding \<open>[1, 1]\<close> selected, and a factor of \<open>0.3 * 0.5\<close>, row 0 becomes
  \<open>[0.3, 0.6]\<close> and not \<open>[1.3, 1.6]\<close>; the EOG row is then blanked.
\<close>

theorem AdditiveEogDeep1010_call_overwrites:
  "AdditiveEogDeep1010_call
     \<lparr>EEG_INDS = [0, 1], EOG_INDS = [2], REF_INDS = [], EXTRA_INDS = [], SCALE_IND = 3\<rparr>
     \<lparr>self_p = 1 / 10, max_intensity = 3 / 10, blanking_p = 1\<rparr>
     (\<lambda>i. if i = 0 then 0 else if i = 1 then 1 / 10 else 1 / 2)
     (Tensor [3, 2] [Fin 1, Fin 1, Fin 5, Fin 5, Fin 2, Fin 4])
   = Inr (Tensor [3, 2] [Fin (3 / 10), Fin (3 / 5), Fin 5, Fin 5, Fin 0, Fin 0])"
  by (simp add: AdditiveEogDeep1010_call_def eog_step_def map_slices_def slice0_def
      slice_size_def fill_slices_def upt_conv_Cons numeral_2_eq_2)

section \<open>NoisyBlankDeep1010\<close>

text \<open>
  Claim C10. With \<^verbatim>\<open>purge_mask=True\<close> the call returns what popping the mask from
  the list of per-instance values returns, the mask itself; the noised tensor and the
  other values are not part of the result. The input is a tuple of more than one value
  whose first is a tensor of at least two dimensions and whose value at
  \<^verbatim>\<open>mask_index\<close> is a boolean mask over the rows of the tensor.
\<close>

theorem NoisyBlankDeep1010_call_purge_returns_mask:
  assumes "purge_mask self" and "1 < length xs"
    and "py_index xs (mask_index self) = Inr j"
    and "xs ! 0 = PTensor t" and "xs ! j = PMask m"
    and "2 \<le> length (shape t)" and "length m = hd (shape t)"
  shows "NoisyBlankDeep1010_call self rnd xs = Inr (RItem (PMask m))"
proof -
  have "j \<noteq> 0"
  proof
    assume "j = 0"
    with assms(4,5) show False by simp
  qed
  then have "(xs[0 := PTensor (noise_blanks rnd m t)]) ! j = xs ! j" by simp
  with assms show ?thesis
    by (simp add: NoisyBlankDeep1010_call_def)
qed

theorem NoisyBlankDeep1010_call_purge_returns_mask_witness:
  "NoisyBlankDeep1010_call \<lparr>mask_index = 1, purge_mask = True\<rparr> (\<lambda>i. 1 / 2)
     [PTensor (Tensor [2, 2] [Fin 1, Fin 2, Fin 3, Fin 4]), PMask [True, False], POther 7]
   = Inr (RItem (PMask [True, False]))"
  using NoisyBlankDeep1010_call_purge_returns_mask
    [of "\<lparr>mask_index = 1, purge_mask = True\<rparr>"
        "[PTensor (Tensor [2, 2] [Fin 1, Fin 2, Fin 3, Fin 4]), PMask [True, False], POther 7]"
        1 "Tensor [2, 2] [Fin 1, Fin 2, Fin 3, Fin 4]" "[True, False]" "\<lambda>i. 1 / 2"]
  by (simp add: py_index_def)

section \<open>Tensors of other ranks\<close>

lemma normalize_category_no_tensor:
  assumes "length (shape x) \<noteq> 2" and "length (shape x) \<noteq> 3"
  shows "normalize_category x inds = Inl IndexError \<or> normalize_category x inds = Inl TypeError"
proof (cases "index_select0 x inds")
  case (Inl e)
  then have "e = IndexError" by (auto simp: index_select0_def split: if_splits)
  with Inl show ?thesis by (simp add: normalize_category_def)
next
  case (Inr sl)
  then have "length (shape sl) = length (shape x)"
    by (auto simp: index_select0_def split: if_splits)
  with assms have "min_max_normalize sl = Inr None" by (simp add: min_max_normalize_def)
  with Inr show ?thesis by (simp add: normalize_category_def)
qed

lemma apply_mapping_rank:
  "apply_mapping x M = Inr y \<Longrightarrow> length (shape x) \<noteq> 2 \<Longrightarrow> length (shape y) = length (shape x)"
  by (auto simp: apply_mapping_def Let_def split: if_splits)

lemma MappingDeep1010_call_no_tensor:
  assumes "length (shape x) \<noteq> 2" and "length (shape x) \<noteq> 3"
  shows "isl (MappingDeep1010_call K self x)"
proof (cases "scale_of self x")
  case (Inl e)
  then show ?thesis by (simp add: MappingDeep1010_call_def)
next
  case sc: (Inr scale)
  show ?thesis
  proof (cases "apply_mapping x (mapping self)")
    case (Inl e)
    with sc show ?thesis by (simp add: MappingDeep1010_call_def)
  next
    case (Inr x1)
    with assms have "length (shape x1) \<noteq> 2" "length (shape x1) \<noteq> 3"
      using apply_mapping_rank[OF Inr] by auto
    then have "isl (normalize_category x1 (EEG_INDS K))"
      using normalize_category_no_tensor[of x1 "EEG_INDS K"] by auto
    then obtain e where "normalize_category x1 (EEG_INDS K) = Inl e"
      by (cases "normalize_category x1 (EEG_INDS K)") auto
    with sc Inr show ?thesis by (simp add: MappingDeep1010_call_def)
  qed
qed

text \<open>
  Claim C9. For a tensor whose number of dimensions is neither 2 nor 3,
  \<^verbatim>\<open>min_max_normalize\<close> falls through both branches and returns \<^verbatim>\<open>None\<close>, neither
  a tensor nor an error. FixedScale returns no tensor for such an input (its call
  raises), and neither does the normalisation of a category inside MappingDeep1010:
  the step raises, at the indexing or when \<^verbatim>\<open>None\<close> is assigned to the rows, and so
  does the whole call of MappingDeep1010.
\<close>

theorem min_max_normalize_other_rank_returns_None:
  assumes "length (shape x) \<noteq> 2" and "length (shape x) \<noteq> 3"
  shows "min_max_normalize x = Inr None
    \<and> FixedScale_call fs x = Inl TypeError
    \<and> (normalize_category x inds = Inl IndexError \<or> normalize_category x inds = Inl TypeError)
    \<and> isl (MappingDeep1010_call K self x)"
  using assms normalize_category_no_tensor[OF assms] MappingDeep1010_call_no_tensor[OF assms]
  by (simp add: min_max_normalize_def FixedScale_call_def)

theorem min_max_normalize_other_rank_returns_None_witness:
  "min_max_normalize (Tensor [1, 1, 1, 1] [Fin 1]) = Inr None
   \<and> FixedScale_call \<lparr>low_bound = - 1, high_bound = 1\<rparr> (Tensor [1, 1, 1, 1] [Fin 1])
       = Inl TypeError
   \<and> normalize_category (Tensor [1, 1, 1, 1] [Fin 1]) [0] = Inl TypeError
   \<and> isl (MappingDeep1010_call
        \<lparr>EEG_INDS = [0], EOG_INDS = [1], REF_INDS = [], EXTRA_INDS = [], SCALE_IND = 2\<rparr>
        \<lparr>mapping = \<lparr>nrows = 1, ncols = 3, entry = (\<lambda>c k. if k = 0 then Fin 1 else Fin 0)\<rparr>,
         max_scale = None, return_mask = False\<rparr>
        (Tensor [1, 1, 1, 1] [Fin 1]))"
  using min_max_normalize_other_rank_returns_None
    [of "Tensor [1, 1, 1, 1] [Fin 1]" "\<lparr>low_bound = - 1, high_bound = 1\<rparr>" "[0]"
        "\<lparr>EEG_INDS = [0], EOG_INDS = [1], REF_INDS = [], EXTRA_INDS = [], SCALE_IND = 2\<rparr>"
        "\<lparr>mapping = \<lparr>nrows = 1, ncols = 3, entry = (\<lambda>c k. if k = 0 then Fin 1 else Fin 0)\<rparr>,
         max_scale = None, return_mask = False\<rparr>"]
  by (simp add: normalize_category_def index_select0_def min_max_normalize_def)

section \<open>Constant input\<close>

lemma fold_fmin_const: "fold fmin (replicate k (Fin c)) (Fin c) = Fin c"
  by (induction k) simp_all

lemma fold_fmax_const: "fold fmax (replicate k (Fin c)) (Fin c) = Fin c"
  by (induction k) simp_all

lemma normalize_entries_const:
  "0 < n \<Longrightarrow> normalize_entries (replicate n (Fin c)) = Inr (replicate n NaN)"
proof -
  assume "0 < n"
  then obtain k where n: "n = Suc k" by (cases n) auto
  have mn: "reduce_min (replicate n (Fin c)) = Inr (Fin c)"
    by (simp add: n fold_fmin_const del: fold_replicate)
  have mx: "reduce_max (replicate n (Fin c)) = Inr (Fin c)"
    by (simp add: n fold_fmax_const del: fold_replicate)
  show ?thesis
    unfolding normalize_entries_def mn mx by (simp add: fsub_def)
qed

text \<open>
  Claim C5, as stated: for a constant input, min-max normalisation and ZScore return a
  result without \<open>NaN\<close>, the zero dynamic range passing through as zero. It fails on
  the code. The tensor \<open>[[5, 5]]\<close> is normalised to \<open>[[NaN, NaN]]\<close>, not to zeros.
  On the same tensor the mean is 5 and the standard deviation 0, both without rounding,
  and ZScore returns \<open>[[NaN, NaN]]\<close> as well.
\<close>

theorem min_max_normalize_constant_counterexample:
  "min_max_normalize (Tensor [1, 2] [Fin 5, Fin 5])
     \<noteq> Inr (Some (Tensor [1, 2] [Fin 0, Fin 0]))
   \<and> min_max_normalize (Tensor [1, 2] [Fin 5, Fin 5])
     = Inr (Some (Tensor [1, 2] [NaN, NaN]))
   \<and> ZScore_call (Fin 5) (Fin 0) (Tensor [1, 2] [Fin 5, Fin 5]) = Tensor [1, 2] [NaN, NaN]"
  by (simp add: min_max_normalize_def normalize_entries_def fsub_def ZScore_call_def)

text \<open>
  Claim C5, amended: neither function guards the division. For a constant, non-empty
  tensor of two dimensions \<^verbatim>\<open>min_max_normalize\<close> divides \<open>0\<close> by \<open>0\<close> in every entry and
  returns a tensor of the same shape whose entries are all \<open>NaN\<close>. ZScore returns
  \<open>NaN\<close> in every entry of a constant tensor whenever \<^verbatim>\<open>x.mean()\<close> returns the entry
  itself and \<^verbatim>\<open>x.std()\<close> returns \<open>0\<close>, or \<open>NaN\<close> as for a single entry; nothing is
  said of the inputs on which the rounded mean differs from the entry.
\<close>

theorem constant_input_gives_NaN:
  assumes "0 < n" and "length sh = 2" and "sd = Fin 0 \<or> sd = NaN"
  shows "min_max_normalize (Tensor sh (replicate n (Fin c)))
       = Inr (Some (Tensor sh (replicate n NaN)))
     \<and> ZScore_call (Fin c) sd (Tensor sh (replicate n (Fin c))) = Tensor sh (replicate n NaN)"
proof -
  have "fdiv (Fin 0) sd = NaN"
    using assms(3) by auto
  then show ?thesis
    using assms(1,2)
    by (simp add: min_max_normalize_def normalize_entries_const ZScore_call_def fsub_def)
qed

theorem constant_input_gives_NaN_witness:
  "min_max_normalize (Tensor [1, 2] [Fin 1, Fin 1]) = Inr (Some (Tensor [1, 2] [NaN, NaN]))
   \<and> ZScore_call (Fin 1) (Fin 0) (Tensor [1, 2] [Fin 1, Fin 1]) = Tensor [1, 2] [NaN, NaN]"
  using constant_input_gives_NaN[of 2 "[1, 2]" "Fin 0" 1]
  by (simp add: numeral_2_eq_2)

section \<open>The truncated normal draw of CropAndResample\<close>

lemma trunc_norm_skip:
  assumes "0 \<le> sd" and "\<forall>j<n. max_diff < \<bar>real_of_int (draws (i + j) - m)\<bar>"
  shows "trunc_norm draws i m sd max_diff = trunc_norm draws (i + n) m sd max_diff"
  using assms
proof (induction n arbitrary: i)
  case 0
  then show ?case by simp
next
  case (Suc n)
  from Suc.prems(2) have rej: "max_diff < \<bar>real_of_int (draws i - m)\<bar>"
    by (metis add.right_neutral zero_less_Suc)
  have "\<forall>j<n. max_diff < \<bar>real_of_int (draws (Suc i + j) - m)\<bar>"
    using Suc.prems(2) by (metis Suc_less_eq add_Suc_right add_Suc)
  then have "trunc_norm draws (Suc i) m sd max_diff = trunc_norm draws (Suc i + n) m sd max_diff"
    using Suc.IH[of "Suc i"] Suc.prems(1) by blast
  moreover have "trunc_norm draws i m sd max_diff = trunc_norm draws (Suc i) m sd max_diff"
    using rej Suc.prems(1) by (subst trunc_norm.simps) simp
  ultimately show ?case by simp
qed

lemma trunc_norm_Some_accepts:
  assumes "trunc_norm draws i m sd max_diff = Some y"
  shows "\<not> (0 \<le> sd \<and> (\<forall>j\<ge>i. max_diff < \<bar>real_of_int (draws j - m)\<bar>))"
proof (rule trunc_norm.raw_induct
    [where P = "\<lambda>draws i m sd max_diff y.
        \<not> (0 \<le> sd \<and> (\<forall>j\<ge>i. max_diff < \<bar>real_of_int (draws j - m)\<bar>))", OF _ assms])
  fix f :: "(nat \<Rightarrow> int) \<Rightarrow> nat \<Rightarrow> int \<Rightarrow> real \<Rightarrow> real \<Rightarrow> (error + int) option"
  fix draws i m sd max_diff y
  assume IH: "\<And>draws i m sd max_diff y. f draws i m sd max_diff = Some y \<Longrightarrow>
      \<not> (0 \<le> sd \<and> (\<forall>j\<ge>i. max_diff < \<bar>real_of_int (draws j - m)\<bar>))"
  assume body: "(if sd < 0 then Some (Inl ValueError)
      else if max_diff < \<bar>real_of_int (draws i - m)\<bar> then f draws (Suc i) m sd max_diff
      else Some (Inr (draws i))) = Some y"
  show "\<not> (0 \<le> sd \<and> (\<forall>j\<ge>i. max_diff < \<bar>real_of_int (draws j - m)\<bar>))"
  proof
    assume a: "0 \<le> sd \<and> (\<forall>j\<ge>i. max_diff < \<bar>real_of_int (draws j - m)\<bar>)"
    then have rej: "max_diff < \<bar>real_of_int (draws i - m)\<bar>" by blast
    with a body have "f draws (Suc i) m sd max_diff = Some y"
      by (simp split: if_splits)
    from IH[OF this] a show False by (meson Suc_leD)
  qed
qed

lemma trunc_norm_never:
  assumes "0 \<le> sd" and "\<forall>j. max_diff < \<bar>real_of_int (draws (i + j) - m)\<bar>"
  shows "trunc_norm draws i m sd max_diff = None"
proof (cases "trunc_norm draws i m sd max_diff")
  case None
  then show ?thesis .
next
  case (Some y)
  have "\<forall>j\<ge>i. max_diff < \<bar>real_of_int (draws j - m)\<bar>"
    using assms(2) by (metis le_add_diff_inverse)
  with trunc_norm_Some_accepts[OF Some] assms(1) show ?thesis by blast
qed

text \<open>
  Claim C2, as stated: every call of the truncated normal draw terminates, after a
  bounded number of rejections or with a configuration error. It fails on the code: the
  loop has no bound and no error exit. With target 40, standard deviation 2 and
  truncation 5 on 100 samples, a source whose every draw is 46 (three standard
  deviations above the target, outside the window of 5) is rejected forever, and the call
  does not return.
\<close>

theorem CropAndResample_call_never_returns_counterexample:
  "CropAndResample_call
     \<lparr>self_new_sequence_length = 40, mode = nearest, self_new_sfreq = None, stdev = 2,
      self_truncate = Some 5\<rparr>
     (\<lambda>i. 46) (Tensor [1, 100] (replicate 100 (Fin 0))) = None"
proof -
  have "trunc_norm (\<lambda>i. 46) 0 40 2 5 = None"
    by (rule trunc_norm_never) simp_all
  then show ?thesis
    by (simp add: CropAndResample_call_def max_diff_of_def)
qed

text \<open>
  Claim C2, amended: \<^verbatim>\<open>trunc_norm\<close> returns the first draw within \<open>max_diff\<close> of the
  target, after rejecting every earlier draw, however many there are, and it does not
  return when no draw is accepted; it counts no attempts and reports no configuration
  error. In the call of the transform a \<open>max_diff\<close> that is not positive, as with
  \<^verbatim>\<open>truncate=0\<close>, fails the assertion before any draw.
\<close>

theorem trunc_norm_first_accepted_draw:
  assumes "0 \<le> sd"
  shows "((\<forall>j<n. max_diff < \<bar>real_of_int (draws (i + j) - m)\<bar>)
            \<and> \<bar>real_of_int (draws (i + n) - m)\<bar> \<le> max_diff
          \<longrightarrow> trunc_norm draws i m sd max_diff = Some (Inr (draws (i + n))))
     \<and> ((\<forall>j. max_diff < \<bar>real_of_int (draws (i + j) - m)\<bar>)
          \<longrightarrow> trunc_norm draws i m sd max_diff = None)
     \<and> (shape x \<noteq> [] \<and> max_diff_of self x \<le> 0
          \<longrightarrow> CropAndResample_call self draws x = Some (Inl AssertionError))"
proof (intro conjI impI)
  assume a: "(\<forall>j<n. max_diff < \<bar>real_of_int (draws (i + j) - m)\<bar>)
            \<and> \<bar>real_of_int (draws (i + n) - m)\<bar> \<le> max_diff"
  then have "trunc_norm draws i m sd max_diff = trunc_norm draws (i + n) m sd max_diff"
    using trunc_norm_skip[OF assms, of n max_diff draws i m] by blast
  also have "\<dots> = Some (Inr (draws (i + n)))"
    using a assms by (subst trunc_norm.simps) simp
  finally show "trunc_norm draws i m sd max_diff = Some (Inr (draws (i + n)))" .
next
  assume "\<forall>j. max_diff < \<bar>real_of_int (draws (i + j) - m)\<bar>"
  then show "trunc_norm draws i m sd max_diff = None"
    using trunc_norm_never[OF assms] by blast
next
  assume "shape x \<noteq> [] \<and> max_diff_of self x \<le> 0"
  then show "CropAndResample_call self draws x = Some (Inl AssertionError)"
    by (simp add: CropAndResample_call_def)
qed

theorem trunc_norm_first_accepted_draw_witness:
  "trunc_norm (\<lambda>i. if i < 3 then 46 else 41) 0 40 2 5 = Some (Inr 41)
   \<and> trunc_norm (\<lambda>i. 46) 0 40 2 5 = None
   \<and> CropAndResample_call
       \<lparr>self_new_sequence_length = 40, mode = nearest, self_new_sfreq = None, stdev = 2,
        self_truncate = Some 0\<rparr>
       (\<lambda>i. 46) (Tensor [1, 100] (replicate 100 (Fin 0))) = Some (Inl AssertionError)"
proof -
  have sd: "(0::real) \<le> 2" by simp
  note th = trunc_norm_first_accepted_draw[OF sd]
  have a: "trunc_norm (\<lambda>i. if i < 3 then 46 else 41) 0 40 2 5 = Some (Inr 41)"
    using th[of 3 5 "\<lambda>i. if i < 3 then 46 else 41" 0 40] by simp
  have b: "trunc_norm (\<lambda>i. 46) 0 40 2 5 = None"
    using th[of 0 5 "\<lambda>i. 46" 0 40] by simp
  have c: "CropAndResample_call
       \<lparr>self_new_sequence_length = 40, mode = nearest, self_new_sfreq = None, stdev = 2,
        self_truncate = Some 0\<rparr>
       (\<lambda>i. 46) (Tensor [1, 100] (replicate 100 (Fin 0))) = Some (Inl AssertionError)"
    using th[of 0 5 "\<lambda>i. 46" 0 40 "Tensor [1, 100] (replicate 100 (Fin 0))"
        "\<lparr>self_new_sequence_length = 40, mode = nearest, self_new_sfreq = None, stdev = 2,
        self_truncate = Some 0\<rparr>"]
    by (simp add: max_diff_of_def)
  from a b c show ?thesis by blast
qed

section \<open>The crop length of CropAndUpSample\<close>

lemma randint_range:
  "low < high \<Longrightarrow> \<exists>k. randint low high u = Inr k \<and> low \<le> k \<and> k < high"
proof -
  assume lh: "low < high"
  then have "u mod nat (high - low) < nat (high - low)" by simp
  then have "int (u mod nat (high - low)) < high - low" by linarith
  with lh show ?thesis by (simp add: randint_def)
qed

lemma randint_onto:
  "low \<le> k \<Longrightarrow> k < high \<Longrightarrow> randint low high (nat (k - low)) = Inr k"
  by (simp add: randint_def nat_mono_iff)

lemma randint_never_high: "randint low high u \<noteq> Inr high"
  using randint_range[of low high u] by (cases "low < high") (auto simp: randint_def)

lemma slice1_rank2:
  assumes "shape x = [C, s]" and "0 \<le> k" and "k \<le> int s"
  shows "slice1 x k = Inr (Tensor [C, nat k] (concat (map (\<lambda>i. take (nat k) (slice0 x i)) [0..<C])))"
proof -
  have "nat k \<le> s" using assms(2,3) by linarith
  then show ?thesis using assms by (simp add: slice1_def Let_def min_def)
qed

lemma TemporalInterpolation_call_rank2:
  assumes "shape xc = [C, l]" and "0 < C" and "0 < l" and "0 < self_new_sequence_length self"
  shows "\<exists>y. TemporalInterpolation_call self xc = Inr y
      \<and> shape y = [C, self_new_sequence_length self]"
  using assms
  by (simp add: TemporalInterpolation_call_def interpolate_def unsqueeze0_def squeeze0_def)

text \<open>
  Claim C8, as stated: the crop length is drawn from the closed interval from
  \<^verbatim>\<open>crop_sequence_min\<close> to the sample count \<open>s\<close>, and \<open>s\<close> itself can be drawn. It
  fails on the code: \<^verbatim>\<open>np.random.randint\<close> excludes its upper bound. On four
  samples with minimum 1 no draw gives the crop length 4.
\<close>

theorem CropAndUpSample_crop_len_counterexample:
  "\<not> (\<exists>u. crop_len (CropAndUpSample_init 4 1) u (Tensor [1, 4] [Fin 1, Fin 2, Fin 3, Fin 4])
          = Inr 4)"
proof
  assume "\<exists>u. crop_len (CropAndUpSample_init 4 1) u (Tensor [1, 4] [Fin 1, Fin 2, Fin 3, Fin 4])
          = Inr 4"
  then obtain u where "randint 1 4 u = Inr 4"
    by (auto simp: crop_len_def CropAndUpSample_init_def)
  then have "1 + int (u mod 3) = 4" by (simp add: randint_def)
  then have "u mod 3 = 3" by linarith
  then show False by (metis mod_less_divisor less_irrefl zero_less_numeral)
qed

text \<open>
  Claim C8, amended: for an input of shape \<open>[C, s]\<close> with a channel, a positive
  \<^verbatim>\<open>crop_sequence_min\<close> below \<open>s\<close> and a positive original length, the crop length is
  drawn from the half-open interval from \<^verbatim>\<open>crop_sequence_min\<close> up to but excluding
  \<open>s\<close>: every draw lies in it, every length in it is drawn by some draw, and \<open>s\<close>
  never is. The call keeps the first crop-length samples of every channel and
  interpolates them to the original length given at construction, which is the sample
  count of the output.
\<close>

theorem CropAndUpSample_crop_len_half_open:
  assumes "shape x = [C, s]" and "0 < C" and "0 < crop_sequence_min self"
    and "crop_sequence_min self < int s" and "0 < self_new_sequence_length self"
  shows "(\<exists>k xc y. crop_len self u x = Inr k \<and> crop_sequence_min self \<le> k \<and> k < int s
            \<and> slice1 x k = Inr xc
            \<and> xc = Tensor [C, nat k] (concat (map (\<lambda>i. take (nat k) (slice0 x i)) [0..<C]))
            \<and> TemporalInterpolation_call self xc = Inr y
            \<and> CropAndUpSample_call self u x = Inr y
            \<and> shape y = [C, self_new_sequence_length self])
     \<and> (\<forall>k. crop_sequence_min self \<le> k \<and> k < int s
            \<longrightarrow> (\<exists>u'. crop_len self u' x = Inr k))
     \<and> (\<forall>u'. crop_len self u' x \<noteq> Inr (int s))"
proof -
  obtain k where k: "crop_len self u x = Inr k" "crop_sequence_min self \<le> k" "k < int s"
    using randint_range[OF assms(4), of u] assms(1) by (auto simp: crop_len_def)
  define xc where "xc = Tensor [C, nat k] (concat (map (\<lambda>i. take (nat k) (slice0 x i)) [0..<C]))"
  have sl: "slice1 x k = Inr xc"
    unfolding xc_def using slice1_rank2[OF assms(1), of k] k assms(3) by simp
  have "shape xc = [C, nat k]" by (simp add: xc_def)
  moreover have "0 < nat k" using k assms(3) by simp
  ultimately obtain y where y: "TemporalInterpolation_call self xc = Inr y"
      "shape y = [C, self_new_sequence_length self]"
    using TemporalInterpolation_call_rank2[of xc C "nat k" self] assms(2,5) by blast
  have call: "CropAndUpSample_call self u x = Inr y"
    by (simp add: CropAndUpSample_call_def k sl y)
  have onto: "\<forall>k. crop_sequence_min self \<le> k \<and> k < int s \<longrightarrow> (\<exists>u'. crop_len self u' x = Inr k)"
    using randint_onto assms(1) by (auto simp: crop_len_def)
  have never: "\<forall>u'. crop_len self u' x \<noteq> Inr (int s)"
    using randint_never_high assms(1) by (simp add: crop_len_def)
  from k sl y call onto never xc_def show ?thesis by blast
qed


theorem CropAndUpSample_crop_len_half_open_witness:
  "crop_len (CropAndUpSample_init 4 1) 1 (Tensor [1, 4] [Fin 1, Fin 2, Fin 3, Fin 4]) = Inr 2
   \<and> CropAndUpSample_call (CropAndUpSample_init 4 1) 1 (Tensor [1, 4] [Fin 1, Fin 2, Fin 3, Fin 4])
       = Inr (Tensor [1, 4] [Fin 1, Fin 1, Fin 2, Fin 2])
   \<and> (\<exists>u'. crop_len (CropAndUpSample_init 4 1) u' (Tensor [1, 4] [Fin 1, Fin 2, Fin 3, Fin 4])
          = Inr 3)
   \<and> (\<forall>u'. crop_len (CropAndUpSample_init 4 1) u' (Tensor [1, 4] [Fin 1, Fin 2, Fin 3, Fin 4])
          \<noteq> Inr 4)"
proof -
  let ?self = "CropAndUpSample_init 4 1"
  let ?x = "Tensor [1, 4] [Fin 1, Fin 2, Fin 3, Fin 4]"
  have h: "shape ?x = [1, 4]" "0 < (1::nat)" "0 < crop_sequence_min ?self"
    "crop_sequence_min ?self < int 4" "0 < self_new_sequence_length ?self"
    by (simp_all add: CropAndUpSample_init_def)
  note th = CropAndUpSample_crop_len_half_open[OF h, of 1]
  from th have onto: "\<forall>k. crop_sequence_min ?self \<le> k \<and> k < int 4
            \<longrightarrow> (\<exists>u'. crop_len ?self u' ?x = Inr k)"
    and never: "\<forall>u'. crop_len ?self u' ?x \<noteq> Inr (int 4)" by blast+
  from onto have three: "\<exists>u'. crop_len ?self u' ?x = Inr 3"
    by (simp add: CropAndUpSample_init_def)
  have len: "crop_len ?self 1 ?x = Inr 2"
    by (simp add: crop_len_def randint_def CropAndUpSample_init_def)
  have call: "CropAndUpSample_call ?self 1 ?x = Inr (Tensor [1, 4] [Fin 1, Fin 1, Fin 2, Fin 2])"
    unfolding CropAndUpSample_call_def len
    by (simp add: CropAndUpSample_init_def slice1_def TemporalInterpolation_call_def
        interpolate_def unsqueeze0_def squeeze0_def lastdim_rows_def nearest_def slice0_def
        slice_size_def upt_conv_Cons)
  from len call three never show ?thesis by simp
qed


section \<open>MappingDeep1010\<close>

subsection \<open>Slices of rebuilt tensors\<close>

lemma take_drop_concat_block:
  assumes "\<forall>xs\<in>set xss. length xs = n" and "k < length xss"
  shows "take n (drop (k * n) (concat xss)) = xss ! k"
  using assms
proof (induction xss arbitrary: k)
  case Nil
  then show ?case by simp
next
  case (Cons a xss)
  show ?case
  proof (cases k)
    case 0
    with Cons.prems show ?thesis by simp
  next
    case (Suc j)
    with Cons.prems have "take n (drop (j * n) (concat xss)) = xss ! j"
      using Cons.IH[of j] by simp
    with Suc Cons.prems show ?thesis by simp
  qed
qed

lemma length_concat_blocks:
  "\<forall>xs\<in>set xss. length xs = n \<Longrightarrow> length (concat xss) = length xss * n"
  by (induction xss) simp_all

lemma length_slice0:
  assumes "wf_tensor x" and "shape x \<noteq> []" and "i < hd (shape x)"
  shows "length (slice0 x i) = slice_size x"
proof -
  obtain d ds where sh: "shape x = d # ds" using assms(2) by (cases "shape x") auto
  have len: "length (data x) = d * prod_list ds" using assms(1) sh by (simp add: wf_tensor_def)
  have "Suc i \<le> d" using assms(3) sh by simp
  then have "Suc i * prod_list ds \<le> d * prod_list ds" by (rule mult_le_mono1)
  then have "prod_list ds \<le> d * prod_list ds - i * prod_list ds" by simp
  then show ?thesis using sh len by (simp add: slice0_def slice_size_def)
qed

lemma map_slices_shape [simp]: "shape (map_slices f x) = shape x"
  by (simp add: map_slices_def)

lemma map_slices_wf:
  assumes "\<forall>i<hd (shape x). length (f i (slice0 x i)) = slice_size x" and "shape x \<noteq> []"
  shows "wf_tensor (map_slices f x)"
proof -
  obtain d ds where sh: "shape x = d # ds" using assms(2) by (cases "shape x") auto
  have "length (concat (map (\<lambda>i. f i (slice0 x i)) [0..<d])) = length (map (\<lambda>i. f i (slice0 x i)) [0..<d]) * slice_size x"
    by (rule length_concat_blocks) (use assms(1) sh in auto)
  then show ?thesis using sh by (simp add: wf_tensor_def map_slices_def slice_size_def)
qed

lemma slice0_Tensor:
  "slice0 (Tensor sh d) i = take (prod_list (tl sh)) (drop (i * prod_list (tl sh)) d)"
  by (simp add: slice0_def slice_size_def)

lemma slice0_map_slices:
  assumes "\<forall>i<hd (shape x). length (f i (slice0 x i)) = slice_size x" and "k < hd (shape x)"
  shows "slice0 (map_slices f x) k = f k (slice0 x k)"
proof -
  let ?g = "\<lambda>i. f i (slice0 x i)"
  have "slice0 (map_slices f x) k
      = slice0 (Tensor (shape x) (concat (map ?g [0..<hd (shape x)]))) k"
    by (simp only: map_slices_def)
  also have "\<dots> = take (slice_size x) (drop (k * slice_size x)
          (concat (map ?g [0..<hd (shape x)])))"
    by (simp only: slice0_Tensor slice_size_def)
  also have "\<dots> = map ?g [0..<hd (shape x)] ! k"
    by (rule take_drop_concat_block) (use assms in auto)
  also have "\<dots> = f k (slice0 x k)" using assms(2) by simp
  finally show ?thesis .
qed

lemma fill_slices_shape [simp]: "shape (fill_slices x sel v) = shape x"
  by (simp add: fill_slices_def)

lemma fill_slices_wf:
  "wf_tensor x \<Longrightarrow> shape x \<noteq> [] \<Longrightarrow> wf_tensor (fill_slices x sel v)"
  unfolding fill_slices_def by (rule map_slices_wf) (simp_all add: length_slice0)

lemma slice0_fill_slices:
  "wf_tensor x \<Longrightarrow> shape x \<noteq> [] \<Longrightarrow> k < hd (shape x) \<Longrightarrow>
     slice0 (fill_slices x sel v) k = (if sel k then replicate (slice_size x) v else slice0 x k)"
  unfolding fill_slices_def by (subst slice0_map_slices) (simp_all add: length_slice0)

subsection \<open>The steps of the mapping keep the tensor well formed\<close>

lemma normalize_entries_length:
  "normalize_entries vs = Inr ws \<Longrightarrow> length ws = length vs"
  by (auto simp: normalize_entries_def split: sum.splits)

lemma min_max_normalize_rank2:
  assumes "length (shape sl) = 2" and "min_max_normalize sl = Inr (Some y)"
  shows "shape y = shape sl \<and> length (data y) = length (data sl)"
  using assms
  by (auto simp: min_max_normalize_def normalize_entries_length split: sum.splits)

lemma index_select0_wf:
  assumes "wf_tensor x" and "index_select0 x inds = Inr sl"
  shows "shape sl = length inds # tl (shape x) \<and> wf_tensor sl"
proof -
  from assms(2) have rk: "\<not> length (shape x) < 2"
    and rng: "\<not> list_ex (\<lambda>i. hd (shape x) \<le> i) inds"
    and sl: "sl = Tensor (length inds # tl (shape x)) (concat (map (slice0 x) inds))"
    by (auto simp: index_select0_def split: if_splits)
  from rk have ne: "shape x \<noteq> []" by auto
  have "\<forall>xs\<in>set (map (slice0 x) inds). length xs = slice_size x"
    using rng length_slice0[OF assms(1) ne] by (auto simp: list_ex_iff not_le)
  then have "length (concat (map (slice0 x) inds)) = length (map (slice0 x) inds) * slice_size x"
    by (rule length_concat_blocks)
  then show ?thesis using sl by (simp add: wf_tensor_def slice_size_def)
qed

lemma map_of_zip_upt_less:
  "map_of (rev (zip inds [0..<length inds])) i = Some j \<Longrightarrow> j < length inds"
proof -
  assume "map_of (rev (zip inds [0..<length inds])) i = Some j"
  then have "(i, j) \<in> set (rev (zip inds [0..<length inds]))" by (rule map_of_SomeD)
  then have "j \<in> set [0..<length inds]" by (auto dest: set_zip_rightD)
  then show ?thesis by simp
qed

lemma index_put0_wf:
  assumes "wf_tensor x" and "wf_tensor y" and "index_put0 x inds y = Inr x'"
  shows "shape x' = shape x \<and> wf_tensor x'"
proof -
  let ?f = "\<lambda>i old. case map_of (rev (zip inds [0..<length inds])) i of
                               None \<Rightarrow> old
                             | Some j \<Rightarrow> slice0 y j"
  from assms(3) have rk: "\<not> length (shape x) < 2"
    and shy: "shape y = length inds # tl (shape x)"
    and x': "x' = map_slices ?f x"
    by (auto simp: index_put0_def split: if_splits)
  from rk have ne: "shape x \<noteq> []" by auto
  have ssy: "slice_size y = slice_size x" using shy by (simp add: slice_size_def)
  have leny: "\<And>j. j < length inds \<Longrightarrow> length (slice0 y j) = slice_size x"
    using length_slice0[OF assms(2)] shy ssy by simp
  have "\<forall>i<hd (shape x). length (?f i (slice0 x i)) = slice_size x"
    using length_slice0[OF assms(1) ne] leny
    by (auto split: option.splits dest: map_of_zip_upt_less)
  then have "wf_tensor (map_slices ?f x)" using ne by (rule map_slices_wf)
  then show ?thesis using x' by simp
qed

lemma normalize_category_wf:
  assumes "wf_tensor x" and "length (shape x) = 2" and "normalize_category x inds = Inr x'"
  shows "shape x' = shape x \<and> wf_tensor x'"
proof -
  from assms(3) obtain sl y where sl: "index_select0 x inds = Inr sl"
    and y: "min_max_normalize sl = Inr (Some y)" and put: "index_put0 x inds y = Inr x'"
    by (auto simp: normalize_category_def split: sum.splits option.splits)
  from index_select0_wf[OF assms(1) sl] have shsl: "shape sl = length inds # tl (shape x)"
    and wfsl: "wf_tensor sl" by simp_all
  from shsl assms(2) have "length (shape sl) = 2" by (cases "shape x") auto
  from min_max_normalize_rank2[OF this y] wfsl have "wf_tensor y"
    by (simp add: wf_tensor_def)
  from index_put0_wf[OF assms(1) this put] show ?thesis .
qed

lemma normalize_categories_wf:
  assumes "wf_tensor x" and "length (shape x) = 2" and "normalize_categories x cats = Inr x'"
  shows "shape x' = shape x \<and> wf_tensor x'"
  using assms
proof (induction cats arbitrary: x)
  case Nil
  then show ?case by simp
next
  case (Cons inds cats)
  from Cons.prems(3) obtain x1 where x1: "normalize_category x inds = Inr x1"
    and rest: "normalize_categories x1 cats = Inr x'"
    by (auto split: sum.splits)
  from normalize_category_wf[OF Cons.prems(1,2) x1] have a: "shape x1 = shape x" "wf_tensor x1"
    by simp_all
  with Cons.IH[of x1] Cons.prems(2) rest show ?case by simp
qed

lemma apply_mapping_rank2:
  assumes "shape x = [C, s]" and "apply_mapping x M = Inr x1"
  shows "shape x1 = [ncols M, s] \<and> wf_tensor x1"
proof -
  let ?rows = "map (\<lambda>k. map (\<lambda>t. fsum (map (\<lambda>c. fmul (data x ! (c * s + t)) (entry M c k)) [0..<C]))
                                        [0..<s]) [0..<ncols M]"
  from assms have x1: "x1 = Tensor [ncols M, s] (concat ?rows)"
    by (auto simp: apply_mapping_def Let_def split: if_splits)
  have "length (concat ?rows) = length ?rows * s"
    by (rule length_concat_blocks) auto
  with x1 show ?thesis by (simp add: wf_tensor_def)
qed

lemma foldl_fadd_zeros:
  "\<forall>v\<in>set vs. v = Fin 0 \<Longrightarrow> foldl fadd (Fin 0) vs = Fin 0"
  by (induction vs) simp_all

lemma unused_column:
  assumes "k < ncols M" and "\<forall>c<nrows M. entry M c k = Fin 0"
  shows "\<not> used_channel_mask M ! k"
proof -
  have "fsum (map (\<lambda>c. entry M c k) [0..<nrows M]) = Fin 0"
    unfolding fsum_def by (rule foldl_fadd_zeros) (use assms(2) in auto)
  then show ?thesis using assms(1) by (simp add: used_channel_mask_def)
qed

lemma fold_min_le: "fold min rs (r::real) \<le> r"
proof (induction rs arbitrary: r)
  case Nil
  then show ?case by simp
next
  case (Cons a rs)
  have "fold min rs (min a r) \<le> min a r" by (rule Cons.IH)
  then show ?case by simp
qed

lemma fold_max_ge: "(r::real) \<le> fold max rs r"
proof (induction rs arbitrary: r)
  case Nil
  then show ?case by simp
next
  case (Cons a rs)
  have "max a r \<le> fold max rs (max a r)" by (rule Cons.IH)
  then show ?case by simp
qed

lemma fold_fmin_Fin: "fold fmin (map Fin rs) (Fin r) = Fin (fold min rs r)"
  by (induction rs arbitrary: r) simp_all

lemma fold_fmax_Fin: "fold fmax (map Fin rs) (Fin r) = Fin (fold max rs r)"
  by (induction rs arbitrary: r) simp_all

lemma scale_of_bounds:
  assumes "scale_of self x = Inr scale" and "max_scale self = Some (Fin c)" and "0 < c"
    and "data x = map Fin rs"
  shows "\<exists>r. scale = Fin r \<and> - 1 \<le> r \<and> r \<le> 1"
proof (cases rs)
  case Nil
  with assms show ?thesis by (simp add: scale_of_def)
next
  case (Cons r rs')
  define a where "a = fold max rs' r"
  define b where "b = fold min rs' r"
  have ba: "b \<le> a" using fold_min_le[of rs' r] fold_max_ge[of r rs'] by (simp add: a_def b_def)
  have mx: "reduce_max (data x) = Inr (Fin a)"
    using assms(4) Cons by (simp add: fold_fmax_Fin a_def)
  have mn: "reduce_min (data x) = Inr (Fin b)"
    using assms(4) Cons by (simp add: fold_fmin_Fin b_def)
  have sc: "scale = Fin (2 * (min ((a - b) / c) 1 - 1 / 2))"
    using assms(1,2,3) by (simp add: scale_of_def mx mn fsub_def)
  define q where "q = min ((a - b) / c) 1"
  have "0 \<le> (a - b) / c" using ba assms(3) by simp
  then have q: "0 \<le> q" "q \<le> 1" by (simp_all add: q_def)
  have lo: "- 1 \<le> 2 * (q - 1 / 2)" using q(1) by simp
  have hi: "2 * (q - 1 / 2) \<le> 1" using q(2) by simp
  from sc have "scale = Fin (2 * (q - 1 / 2))" by (simp add: q_def)
  with lo hi show ?thesis by blast
qed

subsection \<open>Unused rows and the scale row\<close>

lemmas mapping_eval_defs = MappingDeep1010_call_def scale_of_def apply_mapping_def
  normalize_category_def index_select0_def index_put0_def min_max_normalize_def
  normalize_entries_def used_channel_mask_def fill_slices_def map_slices_def slice0_def
  slice_size_def fsum_def fsub_def demo_scheme_def demo_mapping_def Let_def upt_conv_Cons numeral_3_eq_3

lemma MappingDeep1010_call_demo:
  "MappingDeep1010_call demo_scheme
      \<lparr>mapping = demo_mapping, max_scale = Some (Fin 20), return_mask = False\<rparr>
      (Tensor [2, 3] [Fin 1, Fin 2, Fin 3, Fin 4, Fin 5, Fin 6])
    = Inr (Tensor [6, 3]
        [Fin (1 / 3), Fin (2 / 3), Fin 1, Fin 0, Fin 0, Fin 0, Fin 0, Fin (1 / 2), Fin 1,
         Fin 0, Fin 0, Fin 0, Fin (- (1 / 2)), Fin (- (1 / 2)), Fin (- (1 / 2)),
         Fin 0, Fin 0, Fin 0], None)"
  by (simp add: mapping_eval_defs)

lemma MappingDeep1010_call_demo_constant:
  "MappingDeep1010_call demo_scheme
      \<lparr>mapping = demo_mapping, max_scale = Some (Fin 0), return_mask = False\<rparr>
      (Tensor [2, 3] [Fin 1, Fin 1, Fin 1, Fin 1, Fin 1, Fin 1])
    = Inr (Tensor [6, 3]
        [Fin 1, Fin 1, Fin 1, Fin 0, Fin 0, Fin 0, NaN, NaN, NaN,
         Fin 0, Fin 0, Fin 0, NaN, NaN, NaN,
         Fin 0, Fin 0, Fin 0], None)"
  by (simp add: mapping_eval_defs)

text \<open>
  Claim C6, as stated: every canonical row whose mapping column has no contributing
  source channel is all zero in the output, and the scale-indicator row holds a value in
  \<open>[-1, 1]\<close>. It fails on the code. The column of the scale slot has no contributing
  channel, and the scale is written into that row after the unused rows are zeroed: in
  the small scheme, with \<^verbatim>\<open>max_scale\<close> 20 and an input ranging from 1 to 6, the row
  holds \<open>-1/2\<close>. And with a \<^verbatim>\<open>max_scale\<close> of 0 and a constant input the scale is
  \<open>0/0\<close>, so the row holds \<open>NaN\<close>.
\<close>

theorem MappingDeep1010_call_scale_row_counterexample:
  "(\<exists>y. MappingDeep1010_call demo_scheme
      \<lparr>mapping = demo_mapping, max_scale = Some (Fin 20), return_mask = False\<rparr>
      (Tensor [2, 3] [Fin 1, Fin 2, Fin 3, Fin 4, Fin 5, Fin 6]) = Inr (y, None)
     \<and> entry demo_mapping 0 (SCALE_IND demo_scheme) = Fin 0
     \<and> entry demo_mapping 1 (SCALE_IND demo_scheme) = Fin 0
     \<and> slice0 y (SCALE_IND demo_scheme) = [Fin (- (1 / 2)), Fin (- (1 / 2)), Fin (- (1 / 2))])
   \<and> (\<exists>y. MappingDeep1010_call demo_scheme
      \<lparr>mapping = demo_mapping, max_scale = Some (Fin 0), return_mask = False\<rparr>
      (Tensor [2, 3] [Fin 1, Fin 1, Fin 1, Fin 1, Fin 1, Fin 1]) = Inr (y, None)
     \<and> slice0 y (SCALE_IND demo_scheme) = [NaN, NaN, NaN])"
  unfolding MappingDeep1010_call_demo MappingDeep1010_call_demo_constant
  by (simp add: slice0_def slice_size_def demo_scheme_def demo_mapping_def)

text \<open>
  Claim C6, amended: for an input of shape \<open>[C, s]\<close> on which the call returns, the
  output has one row per canonical slot; every row other than the scale-indicator row
  whose mapping column has no contributing source channel is all zero; the
  scale-indicator row holds the scale in every sample; and the scale is 0 without a
  \<^verbatim>\<open>max_scale\<close> and lies in \<open>[-1, 1]\<close> when \<^verbatim>\<open>max_scale\<close> is positive and the
  entries of the input are finite.
\<close>

theorem MappingDeep1010_call_unused_rows_and_scale:
  assumes "shape x = [C, s]" and "MappingDeep1010_call K self x = Inr (y, mk)"
  shows "shape y = [ncols (mapping self), s]
    \<and> (\<forall>k<ncols (mapping self).
          k \<noteq> SCALE_IND K \<and> (\<forall>c<nrows (mapping self). entry (mapping self) c k = Fin 0)
          \<longrightarrow> slice0 y k = replicate s (Fin 0))
    \<and> (\<exists>scale. scale_of self x = Inr scale
          \<and> slice0 y (SCALE_IND K) = replicate s scale
          \<and> (max_scale self = None \<longrightarrow> scale = Fin 0)
          \<and> (\<forall>c rs. max_scale self = Some (Fin c) \<and> 0 < c \<and> data x = map Fin rs
                \<longrightarrow> (\<exists>r. scale = Fin r \<and> - 1 \<le> r \<and> r \<le> 1)))"
proof -
  let ?M = "mapping self"
  let ?mask = "used_channel_mask ?M"
  from assms(2) obtain scale x1 x2 where sc: "scale_of self x = Inr scale"
    and x1: "apply_mapping x ?M = Inr x1"
    and x2: "normalize_categories x1 [EEG_INDS K, EOG_INDS K, REF_INDS K, EXTRA_INDS K] = Inr x2"
    and ind: "SCALE_IND K < hd (shape x2)"
    and y: "y = fill_slices (fill_slices x2 (\<lambda>i. \<not> ?mask ! i) (Fin 0)) (\<lambda>i. i = SCALE_IND K) scale"
    by (auto simp: MappingDeep1010_call_def Let_def split: sum.splits if_splits)
  from apply_mapping_rank2[OF assms(1) x1] have sh1: "shape x1 = [ncols ?M, s]"
    and wf1: "wf_tensor x1" by simp_all
  from sh1 have "length (shape x1) = 2" by simp
  from normalize_categories_wf[OF wf1 this x2] sh1 have sh2: "shape x2 = [ncols ?M, s]"
    and wf2: "wf_tensor x2" by simp_all
  let ?x3 = "fill_slices x2 (\<lambda>i. \<not> ?mask ! i) (Fin 0)"
  have ne2: "shape x2 \<noteq> []" using sh2 by simp
  have wf3: "wf_tensor ?x3" using wf2 ne2 by (rule fill_slices_wf)
  have sh3: "shape ?x3 = [ncols ?M, s]" using sh2 by simp
  have ne3: "shape ?x3 \<noteq> []" using sh3 by simp
  have ss2: "slice_size x2 = s" using sh2 by (simp add: slice_size_def)
  have ss3: "slice_size ?x3 = s" using sh3 by (simp add: slice_size_def)
  have shy: "shape y = [ncols ?M, s]" using y sh3 by simp
  have rows: "slice0 y k = replicate s (Fin 0)"
    if k: "k < ncols ?M" "k \<noteq> SCALE_IND K" "\<forall>c<nrows ?M. entry ?M c k = Fin 0" for k
  proof -
    have k3: "k < hd (shape ?x3)" using k(1) sh3 by simp
    have k2: "k < hd (shape x2)" using k(1) sh2 by simp
    have "slice0 y k = slice0 ?x3 k"
      unfolding y using slice0_fill_slices[OF wf3 ne3 k3] k(2) by simp
    also have "\<dots> = replicate s (Fin 0)"
      using slice0_fill_slices[OF wf2 ne2 k2] unused_column[OF k(1) k(3)] ss2 by simp
    finally show ?thesis .
  qed
  have ind3: "SCALE_IND K < hd (shape ?x3)" using ind by simp
  have srow: "slice0 y (SCALE_IND K) = replicate s scale"
    unfolding y using slice0_fill_slices[OF wf3 ne3 ind3] ss3 by simp
  have none: "scale = Fin 0" if "max_scale self = None"
    using sc that by (simp add: scale_of_def)
  have bound: "\<exists>r. scale = Fin r \<and> - 1 \<le> r \<and> r \<le> 1"
    if "max_scale self = Some (Fin c)" "0 < c" "data x = map Fin rs" for c rs
    using scale_of_bounds[OF sc that] .
  have A: "\<forall>k<ncols ?M. k \<noteq> SCALE_IND K \<and> (\<forall>c<nrows ?M. entry ?M c k = Fin 0)
          \<longrightarrow> slice0 y k = replicate s (Fin 0)"
    using rows by simp
  have B: "\<forall>c rs. max_scale self = Some (Fin c) \<and> 0 < c \<and> data x = map Fin rs
                \<longrightarrow> (\<exists>r. scale = Fin r \<and> - 1 \<le> r \<and> r \<le> 1)"
  proof (intro allI impI)
    fix c rs
    assume "max_scale self = Some (Fin c) \<and> 0 < c \<and> data x = map Fin rs"
    then show "\<exists>r. scale = Fin r \<and> - 1 \<le> r \<and> r \<le> 1"
      using bound[of c rs] by simp
  qed
  have N: "max_scale self = None \<longrightarrow> scale = Fin 0" using none by simp
  show ?thesis
  proof (intro conjI)
    show "shape y = [ncols ?M, s]" by (rule shy)
    show "\<forall>k<ncols ?M. k \<noteq> SCALE_IND K \<and> (\<forall>c<nrows ?M. entry ?M c k = Fin 0)
          \<longrightarrow> slice0 y k = replicate s (Fin 0)" by (rule A)
    show "\<exists>scale. scale_of self x = Inr scale
          \<and> slice0 y (SCALE_IND K) = replicate s scale
          \<and> (max_scale self = None \<longrightarrow> scale = Fin 0)
          \<and> (\<forall>c rs. max_scale self = Some (Fin c) \<and> 0 < c \<and> data x = map Fin rs
                \<longrightarrow> (\<exists>r. scale = Fin r \<and> - 1 \<le> r \<and> r \<le> 1))"
      using sc srow N B by (intro exI[of _ scale] conjI)
  qed
qed

theorem MappingDeep1010_call_unused_rows_and_scale_witness:
  "slice0 (Tensor [6, 3]
        [Fin (1 / 3), Fin (2 / 3), Fin 1, Fin 0, Fin 0, Fin 0, Fin 0, Fin (1 / 2), Fin 1,
         Fin 0, Fin 0, Fin 0, Fin (- (1 / 2)), Fin (- (1 / 2)), Fin (- (1 / 2)),
         Fin 0, Fin 0, Fin 0]) 1 = replicate 3 (Fin 0)
   \<and> MappingDeep1010_call demo_scheme
      \<lparr>mapping = demo_mapping, max_scale = Some (Fin 20), return_mask = False\<rparr>
      (Tensor [2, 3] [Fin 1, Fin 2, Fin 3, Fin 4, Fin 5, Fin 6])
    = Inr (Tensor [6, 3]
        [Fin (1 / 3), Fin (2 / 3), Fin 1, Fin 0, Fin 0, Fin 0, Fin 0, Fin (1 / 2), Fin 1,
         Fin 0, Fin 0, Fin 0, Fin (- (1 / 2)), Fin (- (1 / 2)), Fin (- (1 / 2)),
         Fin 0, Fin 0, Fin 0], None)
   \<and> (\<exists>r. scale_of \<lparr>mapping = demo_mapping, max_scale = Some (Fin 20), return_mask = False\<rparr>
          (Tensor [2, 3] [Fin 1, Fin 2, Fin 3, Fin 4, Fin 5, Fin 6]) = Inr (Fin r)
        \<and> - 1 \<le> r \<and> r \<le> 1)"
proof -
  let ?self = "\<lparr>mapping = demo_mapping, max_scale = Some (Fin 20), return_mask = False\<rparr>"
  let ?x = "Tensor [2, 3] [Fin 1, Fin 2, Fin 3, Fin 4, Fin 5, Fin 6]"
  let ?y = "Tensor [6, 3]
        [Fin (1 / 3), Fin (2 / 3), Fin 1, Fin 0, Fin 0, Fin 0, Fin 0, Fin (1 / 2), Fin 1,
         Fin 0, Fin 0, Fin 0, Fin (- (1 / 2)), Fin (- (1 / 2)), Fin (- (1 / 2)),
         Fin 0, Fin 0, Fin 0]"
  have sh: "shape ?x = [2, 3]" by simp
  note th = MappingDeep1010_call_unused_rows_and_scale[OF sh MappingDeep1010_call_demo]
  note rows = th[THEN conjunct2, THEN conjunct1]
  have "(1::nat) < ncols (mapping ?self) \<and> 1 \<noteq> SCALE_IND demo_scheme
     \<and> (\<forall>c<nrows (mapping ?self). entry (mapping ?self) c 1 = Fin 0)"
    by (simp add: demo_mapping_def demo_scheme_def)
  with rows have r1: "slice0 ?y 1 = replicate 3 (Fin 0)" by (simp del: replicate.simps)
  from th[THEN conjunct2, THEN conjunct2] obtain scale where
    body: "scale_of ?self ?x = Inr scale
          \<and> slice0 ?y (SCALE_IND demo_scheme) = replicate 3 scale
          \<and> (max_scale ?self = None \<longrightarrow> scale = Fin 0)
          \<and> (\<forall>c rs. max_scale ?self = Some (Fin c) \<and> 0 < c \<and> data ?x = map Fin rs
                \<longrightarrow> (\<exists>r. scale = Fin r \<and> - 1 \<le> r \<and> r \<le> 1))" ..
  note sc = body[THEN conjunct1]
  note b = body[THEN conjunct2, THEN conjunct2, THEN conjunct2, THEN spec, THEN spec, THEN mp,
      of 20 "[1, 2, 3, 4, 5, 6]"]
  have "max_scale ?self = Some (Fin 20) \<and> (0::real) < 20 \<and> data ?x = map Fin [1, 2, 3, 4, 5, 6]"
    by simp
  from b[OF this] obtain r where r: "scale = Fin r \<and> - 1 \<le> r \<and> r \<le> 1" ..
  from sc r have "\<exists>r. scale_of ?self ?x = Inr (Fin r) \<and> - 1 \<le> r \<and> r \<le> 1"
    by (intro exI[of _ r]) simp
  with r1 MappingDeep1010_call_demo show ?thesis by (intro conjI)
qed

end
